theory Spec2Isabelle
  imports Main "HOL-Library.FSet"
begin

section \<open>The Sphinx configuration module \<open>docs/conf.py\<close> of gpio-manager\<close>

text \<open>
  The module is a straight-line sequence of top-level statements: two imports, one call
  \<^verbatim>\<open>sys.path.insert(0, os.path.abspath('..'))\<close> and eleven assignments of literals.
  The model keeps the statements as a list, in the order of the file, and runs them over
  a state that holds what the statements read and write: the working directory of the
  process, the module search path and the namespace of the module.
\<close>

subsection \<open>Python values\<close>

text \<open>
  The kinds of Python value that the module binds or that its description speaks of:
  \<^verbatim>\<open>str\<close>, \<^verbatim>\<open>bool\<close>, \<^verbatim>\<open>list\<close>, \<^verbatim>\<open>set\<close>, \<^verbatim>\<open>dict\<close> (in insertion order) and imported modules.
\<close>

datatype pyval =
    PStr string
  | PBool bool
  | PList "pyval list"
  | PSet "pyval fset"
  | PDict "(pyval \<times> pyval) list"
  | PModule string

fun is_str :: "pyval \<Rightarrow> bool" where
  "is_str (PStr _) = True"
| "is_str _ = False"

fun is_bool :: "pyval \<Rightarrow> bool" where
  "is_bool (PBool _) = True"
| "is_bool _ = False"

fun is_module :: "pyval \<Rightarrow> bool" where
  "is_module (PModule _) = True"
| "is_module _ = False"

text \<open>
  Predicates on what a name is bound to (\<open>None\<close> for an unbound name): a non-empty
  string, a non-empty list, a list of strings, a dictionary from strings to booleans, a
  set of strings, and a list of pairwise distinct strings.
\<close>

fun nonempty_str :: "pyval option \<Rightarrow> bool" where
  "nonempty_str (Some (PStr s)) = (s \<noteq> [])"
| "nonempty_str _ = False"

fun nonempty_list :: "pyval option \<Rightarrow> bool" where
  "nonempty_list (Some (PList xs)) = (xs \<noteq> [])"
| "nonempty_list _ = False"

fun str_list :: "pyval option \<Rightarrow> bool" where
  "str_list (Some (PList xs)) = list_all is_str xs"
| "str_list _ = False"

fun str_bool_dict :: "pyval option \<Rightarrow> bool" where
  "str_bool_dict (Some (PDict kvs)) =
     (list_all is_str (map fst kvs) \<and> list_all is_bool (map snd kvs))"
| "str_bool_dict _ = False"

fun str_set :: "pyval option \<Rightarrow> bool" where
  "str_set (Some (PSet xs)) = (ffilter is_str xs = xs)"
| "str_set _ = False"

fun distinct_str_list :: "pyval option \<Rightarrow> bool" where
  "distinct_str_list (Some (PList xs)) = (list_all is_str xs \<and> distinct xs)"
| "distinct_str_list _ = False"

subsection \<open>The POSIX path functions behind \<^verbatim>\<open>os.path.abspath\<close>\<close>

text \<open>
  \<^verbatim>\<open>os.path.abspath\<close> is the standard library's, not the repository's. On the POSIX
  systems that gpio-manager targets it is
  \<^verbatim>\<open>normpath(path if path.startswith('/') else join(os.getcwd(), path))\<close>;
  the three functions below follow \<^verbatim>\<open>posixpath.join\<close> (for two arguments),
  \<^verbatim>\<open>posixpath.normpath\<close> and \<^verbatim>\<open>posixpath.abspath\<close> statement by statement, with
  the working directory passed in.
\<close>

fun startswith_sep :: "string \<Rightarrow> bool" where
  "startswith_sep [] = False"
| "startswith_sep (c # cs) = (c = CHR ''/'')"

definition endswith_sep :: "string \<Rightarrow> bool" where
  "endswith_sep p = (if p = [] then False else last p = CHR ''/'')"

text \<open>\<^verbatim>\<open>str.split('/')\<close>: the pieces between separators, empty pieces included.\<close>

fun split_sep :: "string \<Rightarrow> string list" where
  "split_sep [] = [[]]"
| "split_sep (c # cs) =
     (if c = CHR ''/'' then [] # split_sep cs
      else (case split_sep cs of
              [] \<Rightarrow> [[c]]
            | w # ws \<Rightarrow> (c # w) # ws))"

text \<open>\<^verbatim>\<open>'/'.join(comps)\<close>.\<close>

fun sep_join :: "string list \<Rightarrow> string" where
  "sep_join [] = []"
| "sep_join [c] = c"
| "sep_join (c # d # cs) = c @ CHR ''/'' # sep_join (d # cs)"

text \<open>
  \<^verbatim>\<open>posixpath.join(a, b)\<close>: an absolute \<open>b\<close> (or an empty \<open>a\<close>) discards \<open>a\<close>; otherwise
  \<open>b\<close> is appended, with a separator unless \<open>a\<close> ends in one.
\<close>

definition path_join :: "string \<Rightarrow> string \<Rightarrow> string" where
  "path_join a b =
     (if startswith_sep b then b
      else if a = [] then b
      else if endswith_sep a then a @ b
      else a @ CHR ''/'' # b)"

text \<open>
  The number of leading slashes that \<^verbatim>\<open>normpath\<close> keeps: none for a relative path, two
  for a path that starts with exactly two, one otherwise.
\<close>

definition initial_slashes :: "string \<Rightarrow> nat" where
  "initial_slashes p =
     (if startswith_sep p then
        (if take 2 p = ''//'' then (if take 3 p = ''///'' then 1 else 2) else 1)
      else 0)"

text \<open>
  One round of the loop of \<^verbatim>\<open>normpath\<close> over the components: empty and \<^verbatim>\<open>'.'\<close>
  components are skipped; a component is appended when it is not \<^verbatim>\<open>'..'\<close>, or when
  nothing can be popped (a relative path with no component left, or a \<^verbatim>\<open>'..'\<close> on top);
  otherwise the last component is popped, if there is one.
\<close>

fun norm_step :: "nat \<Rightarrow> string list \<Rightarrow> string \<Rightarrow> string list" where
  "norm_step ini new_comps c =
     (if c = [] then new_comps
      else if c = ''.'' then new_comps
      else if c = ''..'' then
        (if ini = 0 \<and> new_comps = [] then new_comps @ [c]
         else if new_comps = [] then new_comps
         else if last new_comps = ''..'' then new_comps @ [c]
         else butlast new_comps)
      else new_comps @ [c])"

definition normpath :: "string \<Rightarrow> string" where
  "normpath p =
     (if p = [] then ''.''
      else
        let ini = initial_slashes p;
            comps = foldl (norm_step ini) [] (split_sep p);
            path = replicate ini (CHR ''/'') @ sep_join comps
        in if path = [] then ''.'' else path)"

definition abspath :: "string \<Rightarrow> string \<Rightarrow> string" where
  "abspath cwd_dir p = normpath (if startswith_sep p then p else path_join cwd_dir p)"

text \<open>\<^verbatim>\<open>list.insert(i, x)\<close>: a negative index counts from the end, and the index is clipped.\<close>

definition list_insert :: "int \<Rightarrow> 'a \<Rightarrow> 'a list \<Rightarrow> 'a list" where
  "list_insert i x xs =
     (let n = int (length xs);
          j = (if i < 0 then (if i + n < 0 then 0 else i + n) else (if n < i then n else i))
      in take (nat j) xs @ x # drop (nat j) xs)"

subsection \<open>State and statements\<close>

text \<open>
  What evaluation of the module can read or write: the working directory of the process
  (the result of \<^verbatim>\<open>os.getcwd()\<close>), the directory that holds \<^verbatim>\<open>conf.py\<close>, the directories
  that exist on the file system (each as the list of its components below the root),
  \<^verbatim>\<open>sys.path\<close>, and the names the module has bound so far.
\<close>

record state =
  cwd :: string
  conf_dir :: string
  fs_dirs :: "string list set"
  sys_path :: "string list"
  namespace :: "string \<rightharpoonup> pyval"

datatype stmt =
    Import string
  | SysPathInsertAbspath int string
  | Assign string pyval

fun exec :: "stmt \<Rightarrow> state \<Rightarrow> state" where
  "exec (Import m) s = s\<lparr>namespace := (namespace s)(m \<mapsto> PModule m)\<rparr>"
| "exec (SysPathInsertAbspath i p) s =
     s\<lparr>sys_path := list_insert i (abspath (cwd s) p) (sys_path s)\<rparr>"
| "exec (Assign x v) s = s\<lparr>namespace := (namespace s)(x \<mapsto> v)\<rparr>"

text \<open>The statements of \<^verbatim>\<open>docs/conf.py\<close>, in the order of the file.\<close>

definition conf_py :: "stmt list" where
  "conf_py =
     [Import ''sys'',
      Import ''os'',
      SysPathInsertAbspath 0 ''..'',
      Assign ''project'' (PStr ''gpio-manager''),
      Assign ''copyright'' (PStr ''2024, Rylan Meilutis''),
      Assign ''author'' (PStr ''Rylan Meilutis''),
      Assign ''release'' (PStr ''2.1.14''),
      Assign ''extensions'' (PList [PStr ''sphinx.ext.autodoc'']),
      Assign ''templates_path'' (PList [PStr ''_templates'']),
      Assign ''exclude_patterns''
        (PList [PStr ''_build'', PStr ''Thumbs.db'', PStr ''.DS_Store'']),
      Assign ''html_theme'' (PStr ''furo''),
      Assign ''html_theme_options''
        (PDict [(PStr ''sidebar_hide_name'', PBool False),
                (PStr ''navigation_with_keys'', PBool True)]),
      Assign ''html_title'' (PStr ''GPIO Manager Documentation''),
      Assign ''html_static_path'' (PList [PStr ''_static''])]"

definition run :: "stmt list \<Rightarrow> state \<Rightarrow> state" where
  "run prog s = fold exec prog s"

text \<open>Evaluating the module: its statements run in a fresh namespace.\<close>

definition eval_module :: "state \<Rightarrow> state" where
  "eval_module s = run conf_py (s\<lparr>namespace := Map.empty\<rparr>)"

text \<open>The state after the first \<open>k\<close> statements of the module.\<close>

definition eval_prefix :: "nat \<Rightarrow> state \<Rightarrow> state" where
  "eval_prefix k s = run (take k conf_py) (s\<lparr>namespace := Map.empty\<rparr>)"

text \<open>The name a statement binds in the namespace, if it binds one.\<close>

fun binds :: "stmt \<Rightarrow> string option" where
  "binds (Import m) = Some m"
| "binds (Assign x v) = Some x"
| "binds (SysPathInsertAbspath i p) = None"

fun assigns :: "stmt \<Rightarrow> string option" where
  "assigns (Assign x v) = Some x"
| "assigns _ = None"

definition bound_names :: "stmt list \<Rightarrow> string list" where
  "bound_names prog = List.map_filter binds prog"

definition assigned_names :: "stmt list \<Rightarrow> string list" where
  "assigned_names prog = List.map_filter assigns prog"

subsection \<open>The vocabulary of the module's description\<close>

text \<open>The configuration fields that the description of the module names.\<close>

definition config_fields :: "string list" where
  "config_fields =
     [''project'', ''copyright'', ''author'', ''release'', ''extensions'',
      ''templates_path'', ''exclude_patterns'', ''html_theme'', ''html_theme_options'',
      ''html_title'', ''html_static_path'']"

text \<open>
  Directories by their components: \<open>render cs\<close> is the absolute path of the directory
  reached from the root through the components \<open>cs\<close>, a component being a non-empty file
  name other than \<^verbatim>\<open>'.'\<close> and \<^verbatim>\<open>'..'\<close> without a separator. The parent of a directory
  drops the last component (the root is its own parent). A path is a normal absolute path
  when it is the rendering of its own components; \<^verbatim>\<open>os.getcwd()\<close> returns such paths.
\<close>

definition valid_name :: "string \<Rightarrow> bool" where
  "valid_name c = (c \<noteq> [] \<and> c \<noteq> ''.'' \<and> c \<noteq> ''..'' \<and> CHR ''/'' \<notin> set c)"

definition render :: "string list \<Rightarrow> string" where
  "render cs = CHR ''/'' # sep_join cs"

definition path_comps :: "string \<Rightarrow> string list" where
  "path_comps p = filter (\<lambda>c. c \<noteq> []) (split_sep p)"

definition parent_dir :: "string \<Rightarrow> string" where
  "parent_dir p = render (butlast (path_comps p))"

definition normal_abs :: "string \<Rightarrow> bool" where
  "normal_abs p = (p = render (path_comps p) \<and> list_all valid_name (path_comps p))"

text \<open>
  A directory exists when its components are among the directories of the file system.
  The file system is a tree when every directory has valid components and its parent
  exists too.
\<close>

definition dir_exists :: "state \<Rightarrow> string \<Rightarrow> bool" where
  "dir_exists s p = (p \<in> render ` fs_dirs s)"

definition fs_tree :: "state \<Rightarrow> bool" where
  "fs_tree s = (\<forall>d \<in> fs_dirs s. list_all valid_name d \<and> butlast d \<in> fs_dirs s)"

text \<open>
  Two concrete situations, on a machine where the repository is checked out at
  \<^verbatim>\<open>/home/pi/gpio_manager\<close>: the module evaluated with its own directory as the working
  directory (as Sphinx does), and evaluated from the root of the repository.
\<close>

definition docs_state :: state where
  "docs_state =
     \<lparr>cwd = ''/home/pi/gpio_manager/docs'',
      conf_dir = ''/home/pi/gpio_manager/docs'',
      fs_dirs = {[], [''home''], [''home'', ''pi''], [''home'', ''pi'', ''gpio_manager''],
                 [''home'', ''pi'', ''gpio_manager'', ''docs'']},
      sys_path = [''/usr/lib/python3''],
      namespace = Map.empty\<rparr>"

definition root_state :: state where
  "root_state = docs_state\<lparr>cwd := ''/home/pi/gpio_manager''\<rparr>"

declare norm_step.simps [simp del]


section \<open>Auxiliary facts\<close>

subsection \<open>What evaluation leaves in the state\<close>

lemma list_insert_front: "list_insert 0 x xs = x # xs"
  by (simp add: list_insert_def)

lemma sys_path_eval: "sys_path (eval_module s) = abspath (cwd s) ''..'' # sys_path s"
  by (simp add: eval_module_def run_def conf_py_def list_insert_front)

lemma frame_eval:
  "cwd (eval_module s) = cwd s"
  "conf_dir (eval_module s) = conf_dir s"
  "fs_dirs (eval_module s) = fs_dirs s"
  by (simp_all add: eval_module_def run_def conf_py_def)

lemma namespace_eval:
  "namespace (eval_module s) =
     [''sys'' \<mapsto> PModule ''sys'',
      ''os'' \<mapsto> PModule ''os'',
      ''project'' \<mapsto> PStr ''gpio-manager'',
      ''copyright'' \<mapsto> PStr ''2024, Rylan Meilutis'',
      ''author'' \<mapsto> PStr ''Rylan Meilutis'',
      ''release'' \<mapsto> PStr ''2.1.14'',
      ''extensions'' \<mapsto> PList [PStr ''sphinx.ext.autodoc''],
      ''templates_path'' \<mapsto> PList [PStr ''_templates''],
      ''exclude_patterns'' \<mapsto> PList [PStr ''_build'', PStr ''Thumbs.db'', PStr ''.DS_Store''],
      ''html_theme'' \<mapsto> PStr ''furo'',
      ''html_theme_options'' \<mapsto>
        PDict [(PStr ''sidebar_hide_name'', PBool False),
               (PStr ''navigation_with_keys'', PBool True)],
      ''html_title'' \<mapsto> PStr ''GPIO Manager Documentation'',
      ''html_static_path'' \<mapsto> PList [PStr ''_static'']]"
  by (simp add: eval_module_def run_def conf_py_def)

lemma field_values:
  "map (namespace (eval_module s)) config_fields =
     [Some (PStr ''gpio-manager''),
      Some (PStr ''2024, Rylan Meilutis''),
      Some (PStr ''Rylan Meilutis''),
      Some (PStr ''2.1.14''),
      Some (PList [PStr ''sphinx.ext.autodoc'']),
      Some (PList [PStr ''_templates'']),
      Some (PList [PStr ''_build'', PStr ''Thumbs.db'', PStr ''.DS_Store'']),
      Some (PStr ''furo''),
      Some (PDict [(PStr ''sidebar_hide_name'', PBool False),
                   (PStr ''navigation_with_keys'', PBool True)]),
      Some (PStr ''GPIO Manager Documentation''),
      Some (PList [PStr ''_static''])]"
  by (simp add: namespace_eval config_fields_def)

lemma module_values:
  "namespace (eval_module s) ''sys'' = Some (PModule ''sys'')"
  "namespace (eval_module s) ''os'' = Some (PModule ''os'')"
  by (simp_all add: namespace_eval)

lemma dom_eval:
  "dom (namespace (eval_module s)) = set config_fields \<union> {''sys'', ''os''}"
proof (rule set_eqI)
  fix x
  show "x \<in> dom (namespace (eval_module s)) \<longleftrightarrow> x \<in> set config_fields \<union> {''sys'', ''os''}"
    unfolding namespace_eval config_fields_def by (simp add: dom_def)
qed

lemma assigned_eval: "assigned_names conf_py = config_fields"
  by (simp add: assigned_names_def conf_py_def config_fields_def List.map_filter_simps)

lemma bound_eval: "bound_names conf_py = ''sys'' # ''os'' # config_fields"
  by (simp add: bound_names_def conf_py_def config_fields_def List.map_filter_simps)

lemma non_module_eval:
  "{x. \<exists>v. namespace (eval_module s) x = Some v \<and> \<not> is_module v} = set config_fields"
proof (rule set_eqI)
  fix x
  show "x \<in> {x. \<exists>v. namespace (eval_module s) x = Some v \<and> \<not> is_module v}
        \<longleftrightarrow> x \<in> set config_fields"
    by (simp add: namespace_eval config_fields_def)
qed

subsection \<open>A name bound once keeps its value\<close>

lemma run_append: "run (p @ q) s = run q (run p s)"
  by (simp add: run_def)

lemma bound_names_append: "bound_names (p @ q) = bound_names p @ bound_names q"
  by (simp add: bound_names_def List.map_filter_def)

lemma exec_other: "binds st \<noteq> Some x \<Longrightarrow> namespace (exec st s) x = namespace s x"
  by (cases st) auto

lemma run_other:
  "x \<notin> set (bound_names p) \<Longrightarrow> namespace (run p s) x = namespace s x"
proof (induction p arbitrary: s)
  case Nil
  then show ?case by (simp add: run_def)
next
  case (Cons st p)
  from Cons.prems have here: "binds st \<noteq> Some x" and later: "x \<notin> set (bound_names p)"
    by (auto simp: bound_names_def List.map_filter_def)
  have "namespace (run (st # p) s) x = namespace (run p (exec st s)) x"
    by (simp add: run_def)
  also have "\<dots> = namespace (exec st s) x"
    using later by (rule Cons.IH)
  also have "\<dots> = namespace s x"
    using here by (rule exec_other)
  finally show ?case .
qed

lemma binding_is_final:
  assumes d: "distinct (bound_names (p @ q))"
    and fresh: "namespace s x = None"
  shows "namespace (run p s) x = None \<or> namespace (run p s) x = namespace (run (p @ q) s) x"
proof (cases "x \<in> set (bound_names p)")
  case True
  with d have "x \<notin> set (bound_names q)"
    by (auto simp: bound_names_append)
  then have "namespace (run q (run p s)) x = namespace (run p s) x"
    by (rule run_other)
  then show ?thesis
    by (simp add: run_append)
next
  case False
  then have "namespace (run p s) x = namespace s x"
    by (rule run_other)
  with fresh show ?thesis
    by simp
qed

lemma prefix_stable:
  "namespace (eval_prefix k s) x = None \<or>
   namespace (eval_prefix k s) x = namespace (eval_module s) x"
proof -
  have d: "distinct (bound_names (take k conf_py @ drop k conf_py))"
    by (simp add: bound_eval config_fields_def)
  have fresh: "namespace (s\<lparr>namespace := Map.empty\<rparr>) x = None"
    by simp
  from binding_is_final [OF d fresh] show ?thesis
    by (simp add: eval_prefix_def eval_module_def)
qed


subsection \<open>The parent directory, as \<^verbatim>\<open>abspath\<close> computes it\<close>

lemma split_sep_plain: "CHR ''/'' \<notin> set a \<Longrightarrow> split_sep (a @ CHR ''/'' # b) = a # split_sep b"
  by (induction a) auto

lemma split_sep_join:
  "list_all valid_name cs \<Longrightarrow> cs \<noteq> [] \<Longrightarrow> split_sep (sep_join cs @ CHR ''/'' # b) = cs @ split_sep b"
proof (induction cs rule: sep_join.induct)
  case 1
  then show ?case by simp
next
  case (2 c)
  then show ?case by (simp add: valid_name_def split_sep_plain)
next
  case (3 c d cs)
  then show ?case by (simp add: valid_name_def split_sep_plain)
qed

lemma foldl_norm_step_valid:
  "list_all valid_name cs \<Longrightarrow> foldl (norm_step ini) acc cs = acc @ cs"
  by (induction cs arbitrary: acc) (auto simp: valid_name_def norm_step.simps)

lemma sep_join_hd:
  "cs \<noteq> [] \<Longrightarrow> hd cs \<noteq> [] \<Longrightarrow> sep_join cs \<noteq> [] \<and> hd (sep_join cs) = hd (hd cs)"
  by (induction cs rule: sep_join.induct) auto

lemma sep_join_last:
  "list_all valid_name cs \<Longrightarrow> cs \<noteq> [] \<Longrightarrow> sep_join cs \<noteq> [] \<and> last (sep_join cs) = last (last cs)"
  by (induction cs rule: sep_join.induct) (auto simp: valid_name_def)

lemma abspath_root: "abspath (render []) ''..'' = render []"
  by (simp add: abspath_def render_def path_join_def endswith_sep_def normpath_def initial_slashes_def norm_step.simps)

lemma valid_last: "list_all valid_name cs \<Longrightarrow> cs \<noteq> [] \<Longrightarrow> valid_name (last cs)"
  by (induction cs) auto

lemma valid_hd: "list_all valid_name cs \<Longrightarrow> cs \<noteq> [] \<Longrightarrow> valid_name (hd cs)"
  by (cases cs) auto

lemma valid_name_hd: "valid_name c \<Longrightarrow> hd c \<noteq> CHR ''/''"
  by (cases c) (auto simp: valid_name_def)

lemma valid_name_last:
  assumes "valid_name c"
  shows "last c \<noteq> CHR ''/''"
proof
  assume sl: "last c = CHR ''/''"
  from assms have "c \<noteq> []"
    by (simp add: valid_name_def)
  then have "last c \<in> set c"
    by (rule last_in_set)
  with sl have "CHR ''/'' \<in> set c"
    by simp
  with assms show False
    by (simp add: valid_name_def)
qed

lemma sep_join_ends:
  assumes v: "list_all valid_name cs" and ne: "cs \<noteq> []"
  shows "sep_join cs \<noteq> []" "hd (sep_join cs) \<noteq> CHR ''/''" "last (sep_join cs) \<noteq> CHR ''/''"
proof -
  have h: "valid_name (hd cs)" and l: "valid_name (last cs)"
    using v ne by (simp_all add: valid_hd valid_last)
  from h have hne: "hd cs \<noteq> []"
    by (simp add: valid_name_def)
  show "sep_join cs \<noteq> []"
    using sep_join_last [OF v ne] by simp
  show "hd (sep_join cs) \<noteq> CHR ''/''"
    using sep_join_hd [OF ne hne] valid_name_hd [OF h] by simp
  show "last (sep_join cs) \<noteq> CHR ''/''"
    using sep_join_last [OF v ne] valid_name_last [OF l] by simp
qed

lemma abspath_parent_nonempty:
  assumes v: "list_all valid_name cs" and ne: "cs \<noteq> []"
  shows "abspath (render cs) ''..'' = render (butlast cs)"
proof -
  note sj = sep_join_ends [OF v ne]
  have lastv: "valid_name (last cs)"
    using v ne by (rule valid_last)
  define p where "p = CHR ''/'' # sep_join cs @ ''/..''"
  have join: "path_join (render cs) ''..'' = p"
    using sj by (simp add: path_join_def endswith_sep_def render_def p_def)
  have ini: "initial_slashes p = Suc 0"
    using sj(1,2) by (cases "sep_join cs") (simp_all add: initial_slashes_def p_def)
  have "split_sep p = [] # cs @ split_sep ''..''"
    using split_sep_join [OF v ne, of "''..''"] by (simp add: p_def)
  then have comps: "split_sep p = [] # cs @ [''..'']"
    by simp
  have first: "norm_step (Suc 0) [] [] = []"
    by (simp add: norm_step.simps)
  have "foldl (norm_step (Suc 0)) [] (split_sep p) = norm_step (Suc 0) (foldl (norm_step (Suc 0)) [] cs) ''..''"
    by (simp only: comps foldl_Cons foldl_append foldl_Nil first)
  also have "\<dots> = norm_step (Suc 0) cs ''..''"
    by (simp only: foldl_norm_step_valid [OF v] append_Nil)
  also have "\<dots> = butlast cs"
    using ne lastv by (simp add: valid_name_def norm_step.simps)
  finally have fold: "foldl (norm_step (Suc 0)) [] (split_sep p) = butlast cs" .
  have pne: "p \<noteq> []"
    by (simp add: p_def)
  have "normpath p = render (butlast cs)"
    by (simp add: normpath_def ini fold render_def pne)
  then show ?thesis
    by (simp add: abspath_def join)
qed

lemma abspath_parent:
  "list_all valid_name cs \<Longrightarrow> abspath (render cs) ''..'' = render (butlast cs)"
  by (cases "cs = []") (simp_all add: abspath_root abspath_parent_nonempty)

lemma abspath_normal_abs:
  assumes "normal_abs p"
  shows "abspath p ''..'' = parent_dir p"
proof -
  define cs where "cs = path_comps p"
  from assms have e: "p = render cs" and v: "list_all valid_name cs"
    by (simp_all add: normal_abs_def cs_def)
  from e have "abspath p ''..'' = abspath (render cs) ''..''"
    by (rule arg_cong [where f = "\<lambda>q. abspath q ''..''"])
  also have "\<dots> = render (butlast cs)"
    using v by (rule abspath_parent)
  finally show ?thesis
    by (simp add: parent_dir_def cs_def)
qed

subsection \<open>The two concrete situations\<close>

lemma abspath_from_root: "abspath ''/home/pi/gpio_manager'' ''..'' = ''/home/pi''"
  by (simp add: abspath_def path_join_def endswith_sep_def normpath_def initial_slashes_def
      norm_step.simps)

lemma abspath_from_docs: "abspath ''/home/pi/gpio_manager/docs'' ''..'' = ''/home/pi/gpio_manager''"
  by (simp add: abspath_def path_join_def endswith_sep_def normpath_def initial_slashes_def
      norm_step.simps)

lemma docs_comps: "path_comps ''/home/pi/gpio_manager/docs'' = [''home'', ''pi'', ''gpio_manager'', ''docs'']"
  by (simp add: path_comps_def)

lemma docs_normal_abs: "normal_abs ''/home/pi/gpio_manager/docs''"
  by (simp add: normal_abs_def docs_comps render_def valid_name_def)

lemma docs_parent: "parent_dir ''/home/pi/gpio_manager/docs'' = ''/home/pi/gpio_manager''"
  by (simp add: parent_dir_def docs_comps render_def)

lemma docs_fs_tree: "fs_tree docs_state"
  by (simp add: fs_tree_def docs_state_def valid_name_def)


section \<open>The properties of the module\<close>

text \<open>
  C1. Evaluating the module defines every one of the named configuration fields
  (\<open>project\<close>, \<open>copyright\<close>, \<open>author\<close>, \<open>release\<close>, \<open>extensions\<close>, \<open>templates_path\<close>,
  \<open>exclude_patterns\<close>, \<open>html_theme\<close>, \<open>html_theme_options\<close>, \<open>html_title\<close>,
  \<open>html_static_path\<close>) and performs the path insertion, and exposes no other
  configuration: the assignments of the module are exactly the named fields, in this order;
  the names bound to a value that is not a module are exactly the named fields; the only
  other names in the namespace are the two imported modules \<open>sys\<close> and \<open>os\<close>; and the
  search path gets the one new entry.
\<close>

theorem conf_defines_exactly_the_named_fields:
  "assigned_names conf_py = config_fields \<and>
   {x. \<exists>v. namespace (eval_module s) x = Some v \<and> \<not> is_module v} = set config_fields \<and>
   dom (namespace (eval_module s)) = set config_fields \<union> {''sys'', ''os''} \<and>
   namespace (eval_module s) ''sys'' = Some (PModule ''sys'') \<and>
   namespace (eval_module s) ''os'' = Some (PModule ''os'') \<and>
   sys_path (eval_module s) = abspath (cwd s) ''..'' # sys_path s"
  by (intro conjI assigned_eval non_module_eval dom_eval module_values sys_path_eval)

text \<open>
  C2. Every declared field value is non-empty as applicable to its kind: \<open>project\<close>,
  \<open>copyright\<close>, \<open>author\<close>, \<open>release\<close>, \<open>html_theme\<close> and \<open>html_title\<close> are non-empty
  strings, and \<open>extensions\<close>, \<open>templates_path\<close>, \<open>exclude_patterns\<close> and
  \<open>html_static_path\<close> are non-empty lists.
\<close>

theorem field_values_nonempty:
  "list_all (\<lambda>x. nonempty_str (namespace (eval_module s) x))
     [''project'', ''copyright'', ''author'', ''release'', ''html_theme'', ''html_title''] \<and>
   list_all (\<lambda>x. nonempty_list (namespace (eval_module s) x))
     [''extensions'', ''templates_path'', ''exclude_patterns'', ''html_static_path'']"
  by (simp add: namespace_eval)

text \<open>
  C3. The path insertion adds the absolute path of the parent project directory to the
  module search path. The documentation tool evaluates the module with the directory that
  holds \<^verbatim>\<open>conf.py\<close> as the working directory (Sphinx changes into that directory before it
  executes the file). There, with that directory a normal absolute path, the entry put in
  front of the search path is the parent of the directory of \<^verbatim>\<open>conf.py\<close>, the project
  directory, and it is an absolute path. What is inserted from any other working directory
  is the subject of C4.
\<close>

theorem inserts_project_dir_from_conf_dir:
  assumes "cwd s = conf_dir s" and "normal_abs (conf_dir s)"
  shows "sys_path (eval_module s) = parent_dir (conf_dir s) # sys_path s \<and>
         startswith_sep (parent_dir (conf_dir s))"
  using assms by (simp add: sys_path_eval abspath_normal_abs parent_dir_def render_def)

theorem inserts_project_dir_from_conf_dir_witness:
  "cwd docs_state = conf_dir docs_state \<and>
   normal_abs (conf_dir docs_state) \<and>
   sys_path (eval_module docs_state) = ''/home/pi/gpio_manager'' # sys_path docs_state \<and>
   parent_dir (conf_dir docs_state) = ''/home/pi/gpio_manager''"
proof -
  have same: "cwd docs_state = conf_dir docs_state"
    by (simp add: docs_state_def)
  have normal: "normal_abs (conf_dir docs_state)"
    by (simp add: docs_state_def docs_normal_abs)
  have parent: "parent_dir (conf_dir docs_state) = ''/home/pi/gpio_manager''"
    by (simp add: docs_state_def docs_parent)
  have "sys_path (eval_module docs_state) = parent_dir (conf_dir docs_state) # sys_path docs_state \<and>
        startswith_sep (parent_dir (conf_dir docs_state))"
    using same normal by (rule inserts_project_dir_from_conf_dir)
  then have inserted:
    "sys_path (eval_module docs_state) = ''/home/pi/gpio_manager'' # sys_path docs_state"
    by (simp only: parent)
  show ?thesis
    by (intro conjI same normal inserted parent)
qed

text \<open>
  C4. Evaluating the module changes the search path by exactly prepending one entry at
  index 0, the absolute path obtained by resolving \<^verbatim>\<open>'..'\<close> against the working directory
  of the process and not against the location of the configuration file; every entry that
  was there before is retained, unchanged and in its order, after it. The entry does not
  depend on where \<^verbatim>\<open>conf.py\<close> is; evaluated from the root of the repository it is the parent
  of the root, although the parent of the directory of \<^verbatim>\<open>conf.py\<close> is the root itself.
\<close>

theorem insertion_prepends_parent_of_cwd:
  "sys_path (eval_module s) = abspath (cwd s) ''..'' # sys_path s \<and>
   sys_path (eval_module s) ! 0 = abspath (cwd s) ''..'' \<and>
   drop 1 (sys_path (eval_module s)) = sys_path s \<and>
   length (sys_path (eval_module s)) = Suc (length (sys_path s)) \<and>
   abspath (cwd s) ''..'' = normpath (path_join (cwd s) ''..'') \<and>
   sys_path (eval_module (s\<lparr>conf_dir := d\<rparr>)) = sys_path (eval_module s) \<and>
   sys_path (eval_module root_state) ! 0 = ''/home/pi'' \<and>
   abspath (conf_dir root_state) ''..'' = ''/home/pi/gpio_manager''"
proof -
  have resolved: "abspath (cwd s) ''..'' = normpath (path_join (cwd s) ''..'')"
    by (simp add: abspath_def)
  have independent: "sys_path (eval_module (s\<lparr>conf_dir := d\<rparr>)) = sys_path (eval_module s)"
    by (simp add: sys_path_eval)
  have from_root: "sys_path (eval_module root_state) ! 0 = ''/home/pi''"
    by (simp add: sys_path_eval root_state_def docs_state_def abspath_from_root)
  have of_conf: "abspath (conf_dir root_state) ''..'' = ''/home/pi/gpio_manager''"
    by (simp add: root_state_def docs_state_def abspath_from_docs)
  have first: "sys_path (eval_module s) ! 0 = abspath (cwd s) ''..''"
    and rest: "drop 1 (sys_path (eval_module s)) = sys_path s"
    and len: "length (sys_path (eval_module s)) = Suc (length (sys_path s))"
    by (simp_all add: sys_path_eval)
  show ?thesis
    by (intro conjI sys_path_eval first rest len resolved independent from_root of_conf)
qed

text \<open>
  C5, as stated: the exclusion-pattern field is a set of glob patterns, an unordered
  collection of strings without duplicates. The module binds \<open>exclude_patterns\<close> to a list.
\<close>

theorem exclude_patterns_set_counterexample:
  "\<not> str_set (namespace (eval_module docs_state) ''exclude_patterns'')"
  by (simp add: namespace_eval)

text \<open>
  C5, amended: the exclusion-pattern field is a list, an ordered sequence, of the three
  glob-pattern strings \<^verbatim>\<open>'_build'\<close>, \<^verbatim>\<open>'Thumbs.db'\<close> and \<^verbatim>\<open>'.DS_Store'\<close>, which are pairwise
  distinct.
\<close>

theorem exclude_patterns_distinct_list:
  "namespace (eval_module s) ''exclude_patterns'' =
     Some (PList [PStr ''_build'', PStr ''Thumbs.db'', PStr ''.DS_Store'']) \<and>
   distinct_str_list (namespace (eval_module s) ''exclude_patterns'')"
  by (simp add: namespace_eval)

text \<open>
  C6. The configuration is neither mutated nor persisted by the module: every name is
  bound by exactly one statement, the assignments are those of the named fields, and the
  one statement that binds no name is the path insertion; at every point of the
  evaluation a name is either not bound yet or already has its final value; and outside
  the namespace, evaluation leaves the working directory, the location of the file and the
  file system as they were and changes the search path by the one insertion only.
\<close>

theorem fields_assigned_once_and_nothing_else_written:
  "distinct (bound_names conf_py) \<and>
   assigned_names conf_py = config_fields \<and>
   filter (\<lambda>st. binds st = None) conf_py = [SysPathInsertAbspath 0 ''..''] \<and>
   (namespace (eval_prefix k s) x = None \<or>
    namespace (eval_prefix k s) x = namespace (eval_module s) x) \<and>
   eval_prefix (length conf_py) s = eval_module s \<and>
   cwd (eval_module s) = cwd s \<and>
   conf_dir (eval_module s) = conf_dir s \<and>
   fs_dirs (eval_module s) = fs_dirs s \<and>
   sys_path (eval_module s) = abspath (cwd s) ''..'' # sys_path s"
proof -
  have once: "distinct (bound_names conf_py)"
    by (simp add: bound_eval config_fields_def)
  have effect: "filter (\<lambda>st. binds st = None) conf_py = [SysPathInsertAbspath 0 ''..'']"
    by (simp add: conf_py_def)
  have whole: "eval_prefix (length conf_py) s = eval_module s"
    by (simp add: eval_prefix_def eval_module_def)
  show ?thesis
    by (intro conjI once assigned_eval effect prefix_stable whole frame_eval sys_path_eval)
qed

text \<open>
  C7. The theme-options field is a mapping of option names to flags: every key of
  \<open>html_theme_options\<close> is a string and every value is a boolean.
\<close>

theorem theme_options_strings_to_booleans:
  "str_bool_dict (namespace (eval_module s) ''html_theme_options'') \<and>
   namespace (eval_module s) ''html_theme_options'' =
     Some (PDict [(PStr ''sidebar_hide_name'', PBool False),
                  (PStr ''navigation_with_keys'', PBool True)])"
  by (simp add: namespace_eval)

text \<open>
  C8. The enabled-extensions field is an ordered sequence of string identifiers: it is a
  list, and every element of \<open>extensions\<close> is a string.
\<close>

theorem extensions_list_of_strings:
  "str_list (namespace (eval_module s) ''extensions'') \<and>
   namespace (eval_module s) ''extensions'' = Some (PList [PStr ''sphinx.ext.autodoc''])"
  by (simp add: namespace_eval)

text \<open>
  C9. Evaluation is deterministic with respect to the configuration fields: for any two
  evaluations, in any two environments, the values of the eleven named fields are the same
  constants (and so is the whole namespace of the module).
\<close>

theorem field_values_independent_of_environment:
  "map (namespace (eval_module s1)) config_fields = map (namespace (eval_module s2)) config_fields \<and>
   namespace (eval_module s1) = namespace (eval_module s2) \<and>
   map (namespace (eval_module s1)) config_fields =
     [Some (PStr ''gpio-manager''),
      Some (PStr ''2024, Rylan Meilutis''),
      Some (PStr ''Rylan Meilutis''),
      Some (PStr ''2.1.14''),
      Some (PList [PStr ''sphinx.ext.autodoc'']),
      Some (PList [PStr ''_templates'']),
      Some (PList [PStr ''_build'', PStr ''Thumbs.db'', PStr ''.DS_Store'']),
      Some (PStr ''furo''),
      Some (PDict [(PStr ''sidebar_hide_name'', PBool False),
                   (PStr ''navigation_with_keys'', PBool True)]),
      Some (PStr ''GPIO Manager Documentation''),
      Some (PList [PStr ''_static''])]"
proof -
  have ns: "namespace (eval_module s1) = namespace (eval_module s2)"
    by (simp only: namespace_eval)
  show ?thesis
    by (intro conjI ns field_values) (simp only: ns)
qed

text \<open>
  C10. The path insertion resolves to an existing parent directory: on a file system that
  is a tree (the parent of every existing directory exists), with an existing directory
  as the working directory, the entry inserted is the path of the parent of the working
  directory, and that parent is a directory that exists, before the evaluation and after
  it.
\<close>

theorem inserted_directory_exists:
  assumes tree: "fs_tree s" and here: "cs \<in> fs_dirs s" and wd: "cwd s = render cs"
  shows "hd (sys_path (eval_module s)) = render (butlast cs) \<and>
         butlast cs \<in> fs_dirs s \<and>
         dir_exists s (hd (sys_path (eval_module s))) \<and>
         dir_exists (eval_module s) (hd (sys_path (eval_module s)))"
proof -
  from tree here have v: "list_all valid_name cs" and up: "butlast cs \<in> fs_dirs s"
    by (auto simp: fs_tree_def)
  have "hd (sys_path (eval_module s)) = abspath (render cs) ''..''"
    by (simp add: sys_path_eval wd)
  also have "\<dots> = render (butlast cs)"
    using v by (rule abspath_parent)
  finally have entry: "hd (sys_path (eval_module s)) = render (butlast cs)" .
  have before: "dir_exists s (hd (sys_path (eval_module s)))"
    using up by (simp add: dir_exists_def entry)
  have after: "dir_exists (eval_module s) (hd (sys_path (eval_module s)))"
    using up by (simp add: dir_exists_def entry frame_eval)
  show ?thesis
    by (intro conjI entry up before after)
qed

theorem inserted_directory_exists_witness:
  "fs_tree docs_state \<and>
   [''home'', ''pi'', ''gpio_manager'', ''docs''] \<in> fs_dirs docs_state \<and>
   cwd docs_state = render [''home'', ''pi'', ''gpio_manager'', ''docs''] \<and>
   hd (sys_path (eval_module docs_state)) = ''/home/pi/gpio_manager'' \<and>
   [''home'', ''pi'', ''gpio_manager''] \<in> fs_dirs docs_state \<and>
   dir_exists docs_state ''/home/pi/gpio_manager''"
proof -
  have here: "[''home'', ''pi'', ''gpio_manager'', ''docs''] \<in> fs_dirs docs_state"
    by (simp add: docs_state_def)
  have wd: "cwd docs_state = render [''home'', ''pi'', ''gpio_manager'', ''docs'']"
    by (simp add: docs_state_def render_def)
  note found = inserted_directory_exists [OF docs_fs_tree here wd]
  from found have raw:
    "hd (sys_path (eval_module docs_state)) = render (butlast [''home'', ''pi'', ''gpio_manager'', ''docs''])"
    by (rule conjunct1)
  from found have exists:
    "dir_exists docs_state (hd (sys_path (eval_module docs_state)))"
    by blast
  from found have "butlast [''home'', ''pi'', ''gpio_manager'', ''docs''] \<in> fs_dirs docs_state"
    by blast
  then have up: "[''home'', ''pi'', ''gpio_manager''] \<in> fs_dirs docs_state"
    by simp
  from raw have entry: "hd (sys_path (eval_module docs_state)) = ''/home/pi/gpio_manager''"
    by (simp add: render_def)
  from exists have there: "dir_exists docs_state ''/home/pi/gpio_manager''"
    unfolding entry .
  show ?thesis
    by (intro conjI docs_fs_tree here wd entry up there)
qed

end
